theory Spec2Isabelle
  imports Complex_Main "HOL-Library.Word"
begin

section \<open>E-commerce backend: cart, checkout and auth handlers of main.py\<close>

text \<open>
  The handlers of \<^verbatim>\<open>main.py\<close> are embedded as functions from a store to a result and
  the store afterwards. An exception is the left summand of the result; the store is
  returned in every case, so that "no state change on failure" is a statement about the
  model and not a convention of it.

  Three things the handlers call live outside the two source files and are parameters
  of the model, collected in the record \<open>ext\<close>:
  \<^item> \<^verbatim>\<open>bson.ObjectId\<close> (parsing an id string, printing an id);
  \<^item> \<^verbatim>\<open>hashlib.sha256\<close> and the process environment read by \<^verbatim>\<open>os.getenv\<close>;
  \<^item> Python's float arithmetic (\<^verbatim>\<open>float * int\<close>, \<^verbatim>\<open>float + float\<close>,
    \<^verbatim>\<open>round(x, 2)\<close>, the literal \<^verbatim>\<open>0.0\<close>) over a type \<open>'f\<close> of floats.
  Every general theorem below holds for any choice of these parameters.
\<close>

subsection \<open>Exceptions\<close>

text \<open>
  \<^verbatim>\<open>HTTPException(status_code, detail)\<close> is raised by the handlers themselves;
  \<^verbatim>\<open>ValidationError\<close> is what a pydantic model raises when a field constraint of
  \<^verbatim>\<open>schemas.py\<close> fails (the argument names the field).
\<close>

datatype error = HTTPException nat string | ValidationError string

subsection \<open>External functions\<close>

type_synonym ObjectId = nat

record 'f ext =
  ObjectId_of :: "string \<Rightarrow> ObjectId option"
  str_of :: "ObjectId \<Rightarrow> string"
  sha256_hexdigest :: "string \<Rightarrow> string"
  getenv :: "string \<Rightarrow> string option"
  fmul :: "'f \<Rightarrow> int \<Rightarrow> 'f"
  fadd :: "'f \<Rightarrow> 'f \<Rightarrow> 'f"
  round2 :: "'f \<Rightarrow> 'f"
  fzero :: "'f"

subsection \<open>schemas.py\<close>

record User =
  name :: string
  email :: string
  password_hash :: string
  is_active :: bool
  role :: string

record 'f Product =
  title :: string
  description :: "string option"
  price :: "'f"
  image_url :: "string option"
  category :: "string option"
  in_stock :: bool

record CartItem =
  product_id :: string
  quantity :: int

record Cart =
  user_id :: string
  items :: "CartItem list"

record 'f OrderItem =
  product_id :: string
  title :: string
  price :: "'f"
  quantity :: int
  subtotal :: "'f"

record 'f Order =
  user_id :: string
  items :: "'f OrderItem list"
  amount :: "'f"
  currency :: string
  status :: string
  payment_ref :: "string option"

text \<open>
  \<^verbatim>\<open>CartItem.quantity\<close> is declared \<^verbatim>\<open>Field(1, ge=1)\<close>: constructing a
  \<^verbatim>\<open>Cart\<close> from raw items validates each of them and raises on a quantity below 1.
\<close>

definition CartItemSchema :: "string \<times> int \<Rightarrow> error + CartItem" where
  "CartItemSchema raw =
     (if 1 \<le> snd raw
      then Inr \<lparr>CartItem.product_id = fst raw, CartItem.quantity = snd raw\<rparr>
      else Inl (ValidationError ''quantity''))"

fun validate_items :: "(string \<times> int) list \<Rightarrow> error + CartItem list" where
  "validate_items [] = Inr []"
| "validate_items (raw # raws) =
     (case CartItemSchema raw of
        Inl e \<Rightarrow> Inl e
      | Inr item \<Rightarrow>
          (case validate_items raws of
             Inl e \<Rightarrow> Inl e
           | Inr rest \<Rightarrow> Inr (item # rest)))"

definition CartSchema :: "string \<Rightarrow> (string \<times> int) list \<Rightarrow> error + Cart" where
  "CartSchema uid raws =
     (case validate_items raws of
        Inl e \<Rightarrow> Inl e
      | Inr its \<Rightarrow> Inr \<lparr>Cart.user_id = uid, Cart.items = its\<rparr>)"

subsection \<open>The document store\<close>

text \<open>
  Modelled from the spec: \<^verbatim>\<open>database.py\<close> (\<^verbatim>\<open>db\<close>, \<^verbatim>\<open>create_document\<close>) is not
  among the source files. The spec describes a store of named collections with generic
  create, find and update operations, keyed by opaque identifiers, with the collections
  user, product, cart and order. A collection is the list of its documents in insertion
  order; the identifier of a document is its position, so identifiers are unique within
  a collection, and no handler deletes a document. \<^verbatim>\<open>find_one\<close> returns the first
  match with its identifier, \<^verbatim>\<open>update_one\<close> changes the first match only.
\<close>

record 'f db =
  user :: "User list"
  product :: "'f Product list"
  cart :: "Cart list"
  order :: "'f Order list"

fun find_one :: "('a \<Rightarrow> bool) \<Rightarrow> 'a list \<Rightarrow> (ObjectId \<times> 'a) option" where
  "find_one P [] = None"
| "find_one P (d # ds) =
     (if P d then Some (0, d)
      else (case find_one P ds of
              None \<Rightarrow> None
            | Some (i, d') \<Rightarrow> Some (Suc i, d')))"

definition find_one_id :: "ObjectId \<Rightarrow> 'a list \<Rightarrow> 'a option" where
  "find_one_id i ds = (if i < length ds then Some (ds ! i) else None)"

fun update_one :: "('a \<Rightarrow> bool) \<Rightarrow> ('a \<Rightarrow> 'a) \<Rightarrow> 'a list \<Rightarrow> 'a list" where
  "update_one P f [] = []"
| "update_one P f (d # ds) = (if P d then f d # ds else d # update_one P f ds)"

definition update_one_id :: "ObjectId \<Rightarrow> ('a \<Rightarrow> 'a) \<Rightarrow> 'a list \<Rightarrow> 'a list" where
  "update_one_id i f ds = (if i < length ds then ds[i := f (ds ! i)] else ds)"

definition create_document :: "'f ext \<Rightarrow> 'a list \<Rightarrow> 'a \<Rightarrow> string \<times> 'a list" where
  "create_document X coll doc = (str_of X (length coll), coll @ [doc])"

subsection \<open>Utilities\<close>

text \<open>\<^verbatim>\<open>oid\<close>: an id string that \<^verbatim>\<open>ObjectId\<close> rejects becomes a 400.\<close>

definition oid :: "'f ext \<Rightarrow> string \<Rightarrow> error + ObjectId" where
  "oid X id_str =
     (case ObjectId_of X id_str of
        Some i \<Rightarrow> Inr i
      | None \<Rightarrow> Inl (HTTPException 400 ''Invalid id''))"

text \<open>
  \<^verbatim>\<open>bytes.hex()\<close> and \<^verbatim>\<open>str.upper()\<close>, used for the payment reference. The four bytes
  of \<^verbatim>\<open>os.urandom(4)\<close> are an input of \<open>checkout\<close>.
\<close>

definition hexdigit :: "nat \<Rightarrow> char" where
  "hexdigit n = ''0123456789abcdef'' ! n"

fun hex :: "8 word list \<Rightarrow> string" where
  "hex [] = []"
| "hex (b # bs) = hexdigit (unat b div 16) # hexdigit (unat b mod 16) # hex bs"

definition upper_char :: "char \<Rightarrow> char" where
  "upper_char c =
     (case map_of (zip ''abcdefghijklmnopqrstuvwxyz'' ''ABCDEFGHIJKLMNOPQRSTUVWXYZ'') c of
        Some u \<Rightarrow> u
      | None \<Rightarrow> c)"

definition upper :: "string \<Rightarrow> string" where
  "upper s = map upper_char s"

subsection \<open>Auth\<close>

record SignUpRequest =
  name :: string
  email :: string
  password :: string

record SignInRequest =
  email :: string
  password :: string

record AuthResponse =
  user_id :: string
  name :: string
  email :: string
  token :: string

definition hash_password :: "'f ext \<Rightarrow> string \<Rightarrow> string" where
  "hash_password X pw =
     sha256_hexdigest X
       (pw @ (case getenv X ''AUTH_SALT'' of None \<Rightarrow> ''flames_saas'' | Some s \<Rightarrow> s))"

definition signup :: "'f ext \<Rightarrow> 'f db \<Rightarrow> SignUpRequest \<Rightarrow> (error + AuthResponse) \<times> 'f db" where
  "signup X st payload =
     (case find_one (\<lambda>u. User.email u = SignUpRequest.email payload) (user st) of
        Some existing \<Rightarrow> (Inl (HTTPException 400 ''Email already registered''), st)
      | None \<Rightarrow>
          (let usr = \<lparr>User.name = SignUpRequest.name payload,
                      User.email = SignUpRequest.email payload,
                      User.password_hash = hash_password X (SignUpRequest.password payload),
                      User.is_active = True,
                      User.role = ''user''\<rparr>;
               (uid, users') = create_document X (user st) usr;
               tok = hash_password X
                       (SignUpRequest.email payload @ '':'' @ SignUpRequest.password payload)
           in (Inr \<lparr>AuthResponse.user_id = uid,
                    AuthResponse.name = SignUpRequest.name payload,
                    AuthResponse.email = SignUpRequest.email payload,
                    AuthResponse.token = tok\<rparr>,
               st\<lparr>user := users'\<rparr>)))"

definition signin :: "'f ext \<Rightarrow> 'f db \<Rightarrow> SignInRequest \<Rightarrow> (error + AuthResponse) \<times> 'f db" where
  "signin X st payload =
     (case find_one (\<lambda>u. User.email u = SignInRequest.email payload) (user st) of
        None \<Rightarrow> (Inl (HTTPException 401 ''Invalid credentials''), st)
      | Some (i, usr) \<Rightarrow>
          (if User.password_hash usr \<noteq> hash_password X (SignInRequest.password payload)
           then (Inl (HTTPException 401 ''Invalid credentials''), st)
           else
             (let tok = hash_password X
                          (SignInRequest.email payload @ '':'' @ SignInRequest.password payload)
              in (Inr \<lparr>AuthResponse.user_id = str_of X i,
                       AuthResponse.name = User.name usr,
                       AuthResponse.email = User.email usr,
                       AuthResponse.token = tok\<rparr>,
                  st))))"

subsection \<open>Cart\<close>

record AddToCartRequest =
  user_id :: string
  product_id :: string
  quantity :: int

text \<open>
  The loop of \<open>add_to_cart\<close> over the items of an existing cart: every item with the
  requested product id is incremented (the loop has no \<^verbatim>\<open>break\<close>), and the flag
  records whether one was found.
\<close>

fun bump_items :: "string \<Rightarrow> int \<Rightarrow> CartItem list \<Rightarrow> bool \<Rightarrow> CartItem list \<times> bool" where
  "bump_items pid q [] updated = ([], updated)"
| "bump_items pid q (item # rest) updated =
     (if CartItem.product_id item = pid
      then (let (rest', u) = bump_items pid q rest True
            in (item\<lparr>CartItem.quantity := CartItem.quantity item + q\<rparr> # rest', u))
      else (let (rest', u) = bump_items pid q rest updated
            in (item # rest', u)))"

definition add_to_cart :: "'f ext \<Rightarrow> 'f db \<Rightarrow> AddToCartRequest \<Rightarrow> (error + bool) \<times> 'f db" where
  "add_to_cart X st payload =
     (case oid X (AddToCartRequest.user_id payload) of
        Inl e \<Rightarrow> (Inl e, st)
      | Inr user_oid \<Rightarrow>
     (case oid X (AddToCartRequest.product_id payload) of
        Inl e \<Rightarrow> (Inl e, st)
      | Inr product_oid \<Rightarrow>
     (case find_one_id product_oid (product st) of
        None \<Rightarrow> (Inl (HTTPException 404 ''Product not found''), st)
      | Some prd \<Rightarrow>
     (case find_one (\<lambda>c. Cart.user_id c = AddToCartRequest.user_id payload) (cart st) of
        None \<Rightarrow>
          (case CartSchema (AddToCartRequest.user_id payload)
                  [(AddToCartRequest.product_id payload, AddToCartRequest.quantity payload)] of
             Inl e \<Rightarrow> (Inl e, st)
           | Inr cart_doc \<Rightarrow>
               (Inr True, st\<lparr>cart := snd (create_document X (cart st) cart_doc)\<rparr>))
      | Some (cart_id, c) \<Rightarrow>
          (let (its, updated) =
                 bump_items (AddToCartRequest.product_id payload)
                   (AddToCartRequest.quantity payload) (Cart.items c) False;
               its' = (if \<not> updated
                       then its @ [\<lparr>CartItem.product_id = AddToCartRequest.product_id payload,
                                    CartItem.quantity = AddToCartRequest.quantity payload\<rparr>]
                       else its)
           in (Inr True,
               st\<lparr>cart := update_one_id cart_id (\<lambda>d. d\<lparr>Cart.items := its'\<rparr>) (cart st)\<rparr>))))))"

text \<open>
  The result of \<open>get_cart\<close>. The total is the integer \<^verbatim>\<open>0\<close> when there is no cart and
  a rounded float otherwise, hence the two kinds of number.
\<close>

datatype 'f number = PyInt int | PyFloat 'f

record 'f CartLine =
  product_id :: string
  title :: string
  price :: "'f"
  quantity :: int
  image_url :: "string option"
  subtotal :: "'f"

record 'f CartView =
  items :: "'f CartLine list"
  total :: "'f number"

fun cart_lines ::
  "'f ext \<Rightarrow> 'f Product list \<Rightarrow> CartItem list \<Rightarrow> 'f CartLine list \<Rightarrow> 'f
     \<Rightarrow> error + ('f CartLine list \<times> 'f)" where
  "cart_lines X ps [] ls tot = Inr (ls, tot)"
| "cart_lines X ps (item # rest) ls tot =
     (case oid X (CartItem.product_id item) of
        Inl e \<Rightarrow> Inl e
      | Inr i \<Rightarrow>
          (case find_one_id i ps of
             None \<Rightarrow> cart_lines X ps rest ls tot
           | Some prd \<Rightarrow>
               (let sub = fmul X (Product.price prd) (CartItem.quantity item)
                in cart_lines X ps rest
                     (ls @ [\<lparr>CartLine.product_id = CartItem.product_id item,
                             CartLine.title = Product.title prd,
                             CartLine.price = Product.price prd,
                             CartLine.quantity = CartItem.quantity item,
                             CartLine.image_url = Product.image_url prd,
                             CartLine.subtotal = sub\<rparr>])
                     (fadd X tot sub))))"

definition get_cart :: "'f ext \<Rightarrow> 'f db \<Rightarrow> string \<Rightarrow> error + 'f CartView" where
  "get_cart X st uid =
     (case find_one (\<lambda>c. Cart.user_id c = uid) (cart st) of
        None \<Rightarrow> Inr \<lparr>CartView.items = [], CartView.total = PyInt 0\<rparr>
      | Some (cart_id, c) \<Rightarrow>
          (case cart_lines X (product st) (Cart.items c) [] (fzero X) of
             Inl e \<Rightarrow> Inl e
           | Inr (ls, tot) \<Rightarrow>
               Inr \<lparr>CartView.items = ls, CartView.total = PyFloat (round2 X tot)\<rparr>))"

subsection \<open>Checkout\<close>

record CheckoutRequest =
  user_id :: string

record 'f CheckoutResponse =
  order_id :: string
  amount :: "'f"
  currency :: string
  payment_ref :: string

text \<open>
  The loop that builds the order items: the first cart item whose product does not
  resolve raises, before anything is written.
\<close>

fun order_items ::
  "'f ext \<Rightarrow> 'f Product list \<Rightarrow> CartItem list \<Rightarrow> 'f OrderItem list \<Rightarrow> 'f
     \<Rightarrow> error + ('f OrderItem list \<times> 'f)" where
  "order_items X ps [] ois amt = Inr (ois, amt)"
| "order_items X ps (item # rest) ois amt =
     (case oid X (CartItem.product_id item) of
        Inl e \<Rightarrow> Inl e
      | Inr i \<Rightarrow>
          (case find_one_id i ps of
             None \<Rightarrow> Inl (HTTPException 400 ''Invalid product in cart'')
           | Some prd \<Rightarrow>
               (let sub = fmul X (Product.price prd) (CartItem.quantity item)
                in order_items X ps rest
                     (ois @ [\<lparr>OrderItem.product_id = str_of X i,
                              OrderItem.title = Product.title prd,
                              OrderItem.price = Product.price prd,
                              OrderItem.quantity = CartItem.quantity item,
                              OrderItem.subtotal = sub\<rparr>])
                     (fadd X amt sub))))"

type_synonym bytes4 = "8 word \<times> 8 word \<times> 8 word \<times> 8 word"

definition checkout ::
  "'f ext \<Rightarrow> bytes4 \<Rightarrow> 'f db \<Rightarrow> CheckoutRequest \<Rightarrow> (error + 'f CheckoutResponse) \<times> 'f db" where
  "checkout X urandom st payload =
     (case find_one (\<lambda>c. Cart.user_id c = CheckoutRequest.user_id payload) (cart st) of
        None \<Rightarrow> (Inl (HTTPException 400 ''Cart is empty''), st)
      | Some (cart_id, c) \<Rightarrow>
          (if Cart.items c = [] then (Inl (HTTPException 400 ''Cart is empty''), st)
           else
             (case order_items X (product st) (Cart.items c) [] (fzero X) of
                Inl e \<Rightarrow> (Inl e, st)
              | Inr (ois, amt) \<Rightarrow>
                  (let amt' = round2 X amt;
                       (b0, b1, b2, b3) = urandom;
                       pref = ''PAY-'' @ upper (hex [b0, b1, b2, b3]);
                       ord = \<lparr>Order.user_id = CheckoutRequest.user_id payload,
                              Order.items = ois,
                              Order.amount = amt',
                              Order.currency = ''usd'',
                              Order.status = ''paid'',
                              Order.payment_ref = Some pref\<rparr>;
                       (new_id, orders') = create_document X (order st) ord;
                       st1 = st\<lparr>order := orders'\<rparr>;
                       st2 = st1\<lparr>cart :=
                               update_one
                                 (\<lambda>d. Cart.user_id d = CheckoutRequest.user_id payload)
                                 (\<lambda>d. d\<lparr>Cart.items := []\<rparr>) (cart st1)\<rparr>
                   in (Inr \<lparr>CheckoutResponse.order_id = new_id,
                            CheckoutResponse.amount = amt',
                            CheckoutResponse.currency = ''usd'',
                            CheckoutResponse.payment_ref = pref\<rparr>,
                       st2)))))"

subsection \<open>Notions used to state the properties\<close>

text \<open>
  A cart item resolves when its product id parses and the product collection holds a
  document under that identifier.
\<close>

definition resolve :: "'f ext \<Rightarrow> 'f Product list \<Rightarrow> string \<Rightarrow> 'f Product option" where
  "resolve X ps pid =
     (case ObjectId_of X pid of None \<Rightarrow> None | Some i \<Rightarrow> find_one_id i ps)"

text \<open>The float sum of a sequence, accumulated from \<^verbatim>\<open>0.0\<close> in sequence order.\<close>

definition fsum :: "'f ext \<Rightarrow> 'f list \<Rightarrow> 'f" where
  "fsum X xs = foldl (fadd X) (fzero X) xs"

text \<open>The characters of an upper-case hexadecimal numeral.\<close>

definition hex_char :: "char \<Rightarrow> bool" where
  "hex_char c = (c \<in> set ''0123456789ABCDEF'')"

text \<open>
  The amounts of the lines of a cart against the current catalog: price times quantity for
  every item that resolves, in cart order.
\<close>

fun line_amounts :: "'f ext \<Rightarrow> 'f Product list \<Rightarrow> CartItem list \<Rightarrow> 'f list" where
  "line_amounts X ps [] = []"
| "line_amounts X ps (item # rest) =
     (case resolve X ps (CartItem.product_id item) of
        None \<Rightarrow> line_amounts X ps rest
      | Some prd \<Rightarrow> fmul X (Product.price prd) (CartItem.quantity item) # line_amounts X ps rest)"

text \<open>
  The cart of a user: the first cart document with that \<^verbatim>\<open>user_id\<close>, as every handler
  looks it up, together with its identifier.
\<close>

definition user_cart :: "'f db \<Rightarrow> string \<Rightarrow> (ObjectId \<times> Cart) option" where
  "user_cart st uid = find_one (\<lambda>c. Cart.user_id c = uid) (cart st)"

text \<open>
  The cart view as the spec words it: one line per cart item whose product resolves, in
  cart order, with title, price and image of the current product; an item whose product
  does not resolve has no line.
\<close>

fun view_lines :: "'f ext \<Rightarrow> 'f Product list \<Rightarrow> CartItem list \<Rightarrow> 'f CartLine list" where
  "view_lines X ps [] = []"
| "view_lines X ps (item # rest) =
     (case resolve X ps (CartItem.product_id item) of
        None \<Rightarrow> view_lines X ps rest
      | Some prd \<Rightarrow>
          \<lparr>CartLine.product_id = CartItem.product_id item,
            CartLine.title = Product.title prd,
            CartLine.price = Product.price prd,
            CartLine.quantity = CartItem.quantity item,
            CartLine.image_url = Product.image_url prd,
            CartLine.subtotal = fmul X (Product.price prd) (CartItem.quantity item)\<rparr>
          # view_lines X ps rest)"

text \<open>Price times quantity of a returned line.\<close>

definition line_amount :: "'f ext \<Rightarrow> 'f CartLine \<Rightarrow> 'f" where
  "line_amount X l = fmul X (CartLine.price l) (CartLine.quantity l)"

text \<open>
  A call of one of the two auth handlers, the credentials it submits, and its result.
\<close>

datatype auth_call = SignUp SignUpRequest | SignIn SignInRequest

fun credentials :: "auth_call \<Rightarrow> string \<times> string" where
  "credentials (SignUp p) = (SignUpRequest.email p, SignUpRequest.password p)"
| "credentials (SignIn p) = (SignInRequest.email p, SignInRequest.password p)"

fun auth :: "'f ext \<Rightarrow> 'f db \<Rightarrow> auth_call \<Rightarrow> (error + AuthResponse) \<times> 'f db" where
  "auth X st (SignUp p) = signup X st p"
| "auth X st (SignIn p) = signin X st p"

text \<open>
  Every product id stored in a cart is one that \<^verbatim>\<open>ObjectId\<close> accepts. \<open>add_to_cart\<close>
  parses the product id before it stores it, so the handlers keep this invariant.
\<close>

definition cart_ids_wf :: "'f ext \<Rightarrow> 'f db \<Rightarrow> bool" where
  "cart_ids_wf X st =
     list_all (\<lambda>c. list_all (\<lambda>it. ObjectId_of X (CartItem.product_id it) \<noteq> None) (Cart.items c))
       (cart st)"




text \<open>
  Merge-on-add as the spec words it: when the product id is among the items, its
  quantity is incremented; otherwise a new item is appended.
\<close>

definition merge_item :: "CartItem list \<Rightarrow> string \<times> int \<Rightarrow> CartItem list" where
  "merge_item its call =
     (if fst call \<in> CartItem.product_id ` set its
      then map (\<lambda>it. if CartItem.product_id it = fst call
                      then it\<lparr>CartItem.quantity := CartItem.quantity it + snd call\<rparr>
                      else it) its
      else its @ [\<lparr>CartItem.product_id = fst call, CartItem.quantity = snd call\<rparr>])"


text \<open>Every item stored in a cart has a quantity of at least 1.\<close>

definition cart_quantities_ok :: "'f db \<Rightarrow> bool" where
  "cart_quantities_ok st =
     list_all (\<lambda>c. list_all (\<lambda>it. 1 \<le> CartItem.quantity it) (Cart.items c)) (cart st)"

subsection \<open>An instance of the external functions, for evaluation\<close>

text \<open>
  Ids are strings of 24 hexadecimal digits, read as a number; arithmetic is exact
  rational arithmetic and \<open>round2\<close> rounds to hundredths, ties to even; the digest is
  a stand-in (the identity) and the environment is empty. The instance is used only to
  evaluate the handlers on concrete inputs.
\<close>

definition hex_value :: "char \<Rightarrow> nat option" where
  "hex_value c =
     (let n = (of_char c :: nat)
      in if 48 \<le> n \<and> n \<le> 57 then Some (n - 48)
         else if 97 \<le> n \<and> n \<le> 102 then Some (n - 87)
         else if 65 \<le> n \<and> n \<le> 70 then Some (n - 55)
         else None)"

fun from_hex :: "string \<Rightarrow> nat \<Rightarrow> nat option" where
  "from_hex [] acc = Some acc"
| "from_hex (c # cs) acc =
     (case hex_value c of None \<Rightarrow> None | Some d \<Rightarrow> from_hex cs (16 * acc + d))"

definition hex24 :: "string \<Rightarrow> ObjectId option" where
  "hex24 s = (if length s = 24 then from_hex s 0 else None)"

fun to_hex :: "nat \<Rightarrow> nat \<Rightarrow> string" where
  "to_hex 0 n = []"
| "to_hex (Suc k) n = to_hex k (n div 16) @ [hexdigit (n mod 16)]"

definition round_half_even2 :: "rat \<Rightarrow> rat" where
  "round_half_even2 x =
     (let y = x * 100; f = \<lfloor>y\<rfloor>; r = y - of_int f
      in of_int (if r < 1 / 2 then f
                 else if 1 / 2 < r then f + 1
                 else if even f then f else f + 1) / 100)"

definition demo :: "rat ext" where
  "demo = \<lparr>ObjectId_of = hex24,
           str_of = to_hex 24,
           sha256_hexdigest = (\<lambda>s. s),
           getenv = (\<lambda>v. None),
           fmul = (\<lambda>x q. x * of_int q),
           fadd = (\<lambda>x y. x + y),
           round2 = round_half_even2,
           fzero = 0\<rparr>"

subsection \<open>Concrete stores\<close>

text \<open>
  A catalog of two products (identifiers 0 and 1), a user id, and a product id that is
  well formed but absent from the catalog.
\<close>

definition lamp :: "rat Product" where
  "lamp = \<lparr>Product.title = ''Lamp'', Product.description = None, Product.price = 10,
           Product.image_url = None, Product.category = None, Product.in_stock = True\<rparr>"

definition sweet :: "rat Product" where
  "sweet = \<lparr>Product.title = ''Sweet'', Product.description = None, Product.price = 1 / 16,
            Product.image_url = None, Product.category = None, Product.in_stock = True\<rparr>"

definition lamp_id :: string where "lamp_id = ''000000000000000000000000''"
definition sweet_id :: string where "sweet_id = ''000000000000000000000001''"
definition gone_id :: string where "gone_id = ''000000000000000000000009''"
definition alice :: string where "alice = ''00000000000000000000000a''"

definition shop :: "rat db" where
  "shop = \<lparr>user = [], product = [lamp, sweet], cart = [], order = []\<rparr>"

definition with_cart :: "rat db \<Rightarrow> (string \<times> int) list \<Rightarrow> rat db" where
  "with_cart st raws =
     st\<lparr>cart := [\<lparr>Cart.user_id = alice,
                   Cart.items = map (\<lambda>(p, q). \<lparr>CartItem.product_id = p, CartItem.quantity = q\<rparr>) raws\<rparr>]\<rparr>"

text \<open>A sign-up request and the sign-in request with the same credentials.\<close>

definition bob_signup :: SignUpRequest where
  "bob_signup = \<lparr>SignUpRequest.name = ''Bob'', SignUpRequest.email = ''bob@example.com'',
                  SignUpRequest.password = ''pw''\<rparr>"

definition bob_signin :: SignInRequest where
  "bob_signin = \<lparr>SignInRequest.email = ''bob@example.com'', SignInRequest.password = ''pw''\<rparr>"

section \<open>Properties\<close>

lemmas demo_defs = demo_def hex24_def hex_value_def lamp_def sweet_def lamp_id_def sweet_id_def
  gone_id_def alice_def shop_def with_cart_def user_cart_def resolve_def find_one_id_def oid_def
  create_document_def upper_def upper_char_def hexdigit_def fsum_def

lemma to_hex_1: "to_hex 24 (Suc 0) = ''000000000000000000000001''"
  by code_simp

lemma round_sweet: "round_half_even2 (1 / 16) = 3 / 50"
  by code_simp

subsection \<open>The store operations\<close>

lemma find_one_None_iff: "find_one P ds = None \<longleftrightarrow> (\<forall>d\<in>set ds. \<not> P d)"
  by (induction ds) (auto split: option.splits)

lemma find_one_SomeD:
  "find_one P ds = Some (i, d) \<Longrightarrow> i < length ds \<and> ds ! i = d \<and> P d"
  by (induction ds arbitrary: i) (auto split: if_splits option.splits)

lemma update_one_found:
  "find_one P ds = Some (i, d) \<Longrightarrow> update_one P f ds = ds[i := f d]"
  by (induction ds arbitrary: i) (auto split: if_splits option.splits)

lemma find_one_after_update:
  "find_one P ds = Some (i, d) \<Longrightarrow> P (f d) \<Longrightarrow> find_one P (ds[i := f d]) = Some (i, f d)"
  by (induction ds arbitrary: i) (auto split: if_splits option.splits)


subsection \<open>The payment reference\<close>

lemma upper_hexdigit: "n < 16 \<Longrightarrow> hex_char (upper_char (hexdigit n))"
proof -
  assume "n < 16"
  then have "n < Suc (Suc (Suc (Suc (Suc (Suc (Suc (Suc (Suc (Suc (Suc (Suc (Suc (Suc (Suc (Suc 0)))))))))))))))"
    by simp
  then show ?thesis
    unfolding less_Suc_eq
    by (elim disjE) (simp_all add: upper_char_def hexdigit_def hex_char_def)
qed

lemma upper_hex_chars: "list_all hex_char (upper (hex bs))"
proof (induction bs)
  case Nil
  show ?case by (simp add: upper_def)
next
  case (Cons b bs)
  have "unat b < 256" using unsigned_less [of b] by simp
  then have "unat b div 16 < 16" by simp
  then have hi: "hex_char (upper_char (hexdigit (unat b div 16)))"
    by (rule upper_hexdigit)
  have "unat b mod 16 < 16" by simp
  then have lo: "hex_char (upper_char (hexdigit (unat b mod 16)))"
    by (rule upper_hexdigit)
  from hi lo Cons show ?case by (simp add: upper_def)
qed

lemma length_upper_hex: "length (upper (hex bs)) = 2 * length bs"
  by (induction bs) (simp_all add: upper_def)

subsection \<open>Adding to the cart\<close>

lemma bump_items_fst:
  "fst (bump_items pid q its u) =
     map (\<lambda>it. if CartItem.product_id it = pid
                then it\<lparr>CartItem.quantity := CartItem.quantity it + q\<rparr> else it) its"
  by (induction its arbitrary: u) (simp_all add: split_beta)

lemma bump_items_snd:
  "snd (bump_items pid q its u) = (u \<or> pid \<in> CartItem.product_id ` set its)"
  by (induction its arbitrary: u) (auto simp: split_beta)


lemma bump_absent:
  "pid \<notin> CartItem.product_id ` set its \<Longrightarrow>
     map (\<lambda>it. if CartItem.product_id it = pid
                then it\<lparr>CartItem.quantity := CartItem.quantity it + q\<rparr> else it) its = its"
  by (induction its) auto

lemma bump_items_merge:
  "(if \<not> snd (bump_items (fst call) (snd call) its False)
    then fst (bump_items (fst call) (snd call) its False)
           @ [\<lparr>CartItem.product_id = fst call, CartItem.quantity = snd call\<rparr>]
    else fst (bump_items (fst call) (snd call) its False)) = merge_item its call"
  by (simp add: merge_item_def bump_items_fst bump_items_snd bump_absent)

















text \<open>
  Claim C7 (as amended). When the product id of the request does not resolve,
  \<open>add_to_cart\<close> fails and returns the store unchanged: with 400 \<^verbatim>\<open>Invalid id\<close> when
  the user id or the product id is malformed, with 404 \<^verbatim>\<open>Product not found\<close> otherwise.
\<close>

theorem add_to_cart_unresolved:
  "resolve X (product st) (AddToCartRequest.product_id payload) = None \<Longrightarrow>
     snd (add_to_cart X st payload) = st
   \<and> fst (add_to_cart X st payload) =
       (if ObjectId_of X (AddToCartRequest.user_id payload) = None
           \<or> ObjectId_of X (AddToCartRequest.product_id payload) = None
        then Inl (HTTPException 400 ''Invalid id'')
        else Inl (HTTPException 404 ''Product not found''))"
  by (auto simp: add_to_cart_def resolve_def oid_def split: option.splits)

theorem add_to_cart_unresolved_witness:
  "resolve demo (product shop) gone_id = None
   \<and> add_to_cart demo shop
        \<lparr>AddToCartRequest.user_id = alice, AddToCartRequest.product_id = gone_id,
          AddToCartRequest.quantity = 1\<rparr>
     = (Inl (HTTPException 404 ''Product not found''), shop)"
proof -
  let ?p = "\<lparr>AddToCartRequest.user_id = alice, AddToCartRequest.product_id = gone_id,
             AddToCartRequest.quantity = 1\<rparr>"
  have un: "resolve demo (product shop) (AddToCartRequest.product_id ?p) = None"
    by (simp add: demo_defs)
  have ids: "ObjectId_of demo alice \<noteq> None" "ObjectId_of demo gone_id \<noteq> None"
    by (simp_all add: demo_defs)
  from add_to_cart_unresolved [OF un] un ids show ?thesis
    by (simp add: prod_eq_iff)
qed

text \<open>
  Claim C7 as stated fails: with a malformed user id and a well-formed product id that
  is absent from the catalog, the call fails with 400, not 404.
\<close>

theorem add_to_cart_not_found_counterexample:
  "resolve demo (product shop) gone_id = None
   \<and> add_to_cart demo shop
        \<lparr>AddToCartRequest.user_id = ''u1'', AddToCartRequest.product_id = gone_id,
          AddToCartRequest.quantity = 1\<rparr>
     = (Inl (HTTPException 400 ''Invalid id''), shop)
   \<and> fst (add_to_cart demo shop
        \<lparr>AddToCartRequest.user_id = ''u1'', AddToCartRequest.product_id = gone_id,
          AddToCartRequest.quantity = 1\<rparr>)
     \<noteq> Inl (HTTPException 404 ''Product not found'')"
  by (simp add: add_to_cart_def demo_defs)

text \<open>
  A request with a quantity of at least 1 keeps every stored quantity at least 1.
\<close>

lemma merge_item_quantities:
  "list_all (\<lambda>it. 1 \<le> CartItem.quantity it) its \<Longrightarrow> 1 \<le> snd call \<Longrightarrow>
     list_all (\<lambda>it. 1 \<le> CartItem.quantity it) (merge_item its call)"
  by (auto simp: merge_item_def list_all_iff)

lemma add_to_cart_quantities_ok:
  assumes "cart_quantities_ok st" and "1 \<le> AddToCartRequest.quantity payload"
  shows "cart_quantities_ok (snd (add_to_cart X st payload))"
proof (cases "fst (add_to_cart X st payload)")
  case (Inl e)
  then have "snd (add_to_cart X st payload) = st"
    by (auto simp: add_to_cart_def CartSchema_def CartItemSchema_def Let_def
        split: sum.splits option.splits prod.splits if_splits)
  with assms show ?thesis by simp
next
  case (Inr ok)
  let ?uid = "AddToCartRequest.user_id payload"
  let ?call = "(AddToCartRequest.product_id payload, AddToCartRequest.quantity payload)"
  show ?thesis
  proof (cases "find_one (\<lambda>c. Cart.user_id c = ?uid) (cart st)")
    case None
    with Inr assms show ?thesis
      by (auto simp: add_to_cart_def cart_quantities_ok_def create_document_def CartSchema_def
          CartItemSchema_def split: sum.splits option.splits if_splits)
  next
    case (Some ic)
    obtain i c where ic: "ic = (i, c)" by (cases ic)
    from Some ic have i: "i < length (cart st)" "cart st ! i = c"
      by (auto dest: find_one_SomeD)
    from Inr Some ic i have
      st': "snd (add_to_cart X st payload) =
              st\<lparr>cart := (cart st)[i := c\<lparr>Cart.items := merge_item (Cart.items c) ?call\<rparr>]\<rparr>"
      using bump_items_merge [of ?call "Cart.items c"]
      by (auto simp: add_to_cart_def update_one_id_def Let_def split_beta
          split: sum.splits option.splits)
    from assms(1) i have "list_all (\<lambda>it. 1 \<le> CartItem.quantity it) (Cart.items c)"
      by (auto simp: cart_quantities_ok_def list_all_iff)
    with assms(2) have "list_all (\<lambda>it. 1 \<le> CartItem.quantity it) (merge_item (Cart.items c) ?call)"
      by (intro merge_item_quantities) simp_all
    with assms(1) st' show ?thesis
      by (auto simp: cart_quantities_ok_def list_all_iff dest!: set_update_subset_insert [THEN subsetD])
  qed
qed

text \<open>
  Claim C6. The code stores quantities below 1: adding quantity -1 to a cart that holds
  the product once leaves it with quantity 0, and adding a new product with quantity 0
  to an existing cart appends it; only the creation of a cart validates the quantity.
\<close>

theorem add_to_cart_quantity_below_one:
  "add_to_cart demo (with_cart shop [(lamp_id, 1)])
        \<lparr>AddToCartRequest.user_id = alice, AddToCartRequest.product_id = lamp_id,
          AddToCartRequest.quantity = - 1\<rparr>
     = (Inr True, with_cart shop [(lamp_id, 0)])
   \<and> add_to_cart demo (with_cart shop [(lamp_id, 1)])
        \<lparr>AddToCartRequest.user_id = alice, AddToCartRequest.product_id = sweet_id,
          AddToCartRequest.quantity = 0\<rparr>
     = (Inr True, with_cart shop [(lamp_id, 1), (sweet_id, 0)])
   \<and> add_to_cart demo shop
        \<lparr>AddToCartRequest.user_id = alice, AddToCartRequest.product_id = lamp_id,
          AddToCartRequest.quantity = 0\<rparr>
     = (Inl (ValidationError ''quantity''), shop)"
  by (simp add: add_to_cart_def demo_defs update_one_id_def CartSchema_def CartItemSchema_def)

subsection \<open>The cart view\<close>

text \<open>
  Claim C8. For a user without a cart document, \<open>get_cart\<close> returns no items and the
  total 0, and raises nothing.
\<close>

theorem get_cart_no_cart:
  "user_cart st uid = None \<Longrightarrow>
     get_cart X st uid = Inr \<lparr>CartView.items = [], CartView.total = PyInt 0\<rparr>"
  by (simp add: get_cart_def user_cart_def)

theorem get_cart_no_cart_witness:
  "user_cart shop alice = None
   \<and> get_cart demo shop alice = Inr \<lparr>CartView.items = [], CartView.total = PyInt 0\<rparr>"
proof -
  have none: "user_cart shop alice = None"
    by (simp add: user_cart_def shop_def)
  from get_cart_no_cart [OF none] none show ?thesis by simp
qed

lemma cart_lines_eq:
  "\<forall>it\<in>set its. ObjectId_of X (CartItem.product_id it) \<noteq> None \<Longrightarrow>
     cart_lines X ps its ls tot =
       Inr (ls @ view_lines X ps its,
            foldl (fadd X) tot (map (line_amount X) (view_lines X ps its)))"
proof (induction its arbitrary: ls tot)
  case Nil
  show ?case by simp
next
  case (Cons item rest)
  from Cons.prems obtain i where i: "ObjectId_of X (CartItem.product_id item) = Some i"
    by auto
  from Cons.prems have rest: "\<forall>it\<in>set rest. ObjectId_of X (CartItem.product_id it) \<noteq> None"
    by simp
  show ?case
  proof (cases "find_one_id i ps")
    case None
    with i Cons.IH [OF rest] show ?thesis
      by (simp add: oid_def resolve_def)
  next
    case (Some prd)
    with i Cons.IH [OF rest] show ?thesis
      by (simp add: oid_def resolve_def Let_def line_amount_def)
  qed
qed

lemma view_lines_resolved:
  "map CartLine.product_id (view_lines X ps its) =
     filter (\<lambda>pid. resolve X ps pid \<noteq> None) (map CartItem.product_id its)"
  by (induction its) (auto split: option.splits)

text \<open>
  Claim C9. For an existing cart whose stored product ids are well formed, \<open>get_cart\<close>
  raises nothing and returns one line per item whose product resolves, with title and
  price of the current product; the other items have no line; the total is the sum over
  the returned lines of price times quantity, rounded to 2 decimal places.
\<close>

theorem get_cart_lines:
  "user_cart st uid = Some (i, c) \<Longrightarrow>
   \<forall>it\<in>set (Cart.items c). ObjectId_of X (CartItem.product_id it) \<noteq> None \<Longrightarrow>
     get_cart X st uid =
       Inr \<lparr>CartView.items = view_lines X (product st) (Cart.items c),
            CartView.total =
              PyFloat (round2 X (fsum X (map (line_amount X)
                                           (view_lines X (product st) (Cart.items c)))))\<rparr>
   \<and> map CartLine.product_id (view_lines X (product st) (Cart.items c)) =
       filter (\<lambda>pid. resolve X (product st) pid \<noteq> None) (map CartItem.product_id (Cart.items c))"
proof -
  assume c: "user_cart st uid = Some (i, c)"
    and wf: "\<forall>it\<in>set (Cart.items c). ObjectId_of X (CartItem.product_id it) \<noteq> None"
  from cart_lines_eq [OF wf, of "product st" "[]" "fzero X"] c
  show ?thesis
    by (simp add: get_cart_def user_cart_def fsum_def view_lines_resolved)
qed

theorem get_cart_lines_witness:
  "user_cart (with_cart shop [(lamp_id, 2), (gone_id, 1), (sweet_id, 1)]) alice
     = Some (0, \<lparr>Cart.user_id = alice,
                 Cart.items = [\<lparr>CartItem.product_id = lamp_id, CartItem.quantity = 2\<rparr>,
                               \<lparr>CartItem.product_id = gone_id, CartItem.quantity = 1\<rparr>,
                               \<lparr>CartItem.product_id = sweet_id, CartItem.quantity = 1\<rparr>]\<rparr>)
   \<and> get_cart demo (with_cart shop [(lamp_id, 2), (gone_id, 1), (sweet_id, 1)]) alice
     = Inr \<lparr>CartView.items =
              [\<lparr>CartLine.product_id = lamp_id, CartLine.title = ''Lamp'', CartLine.price = 10,
                CartLine.quantity = 2, CartLine.image_url = None, CartLine.subtotal = 20\<rparr>,
               \<lparr>CartLine.product_id = sweet_id, CartLine.title = ''Sweet'',
                CartLine.price = 1 / 16, CartLine.quantity = 1, CartLine.image_url = None,
                CartLine.subtotal = 1 / 16\<rparr>],
            CartView.total = PyFloat (1003 / 50)\<rparr>"
proof -
  let ?st = "with_cart shop [(lamp_id, 2), (gone_id, 1), (sweet_id, 1)]"
  let ?c = "\<lparr>Cart.user_id = alice,
             Cart.items = [\<lparr>CartItem.product_id = lamp_id, CartItem.quantity = 2\<rparr>,
                           \<lparr>CartItem.product_id = gone_id, CartItem.quantity = 1\<rparr>,
                           \<lparr>CartItem.product_id = sweet_id, CartItem.quantity = 1\<rparr>]\<rparr>"
  have uc: "user_cart ?st alice = Some (0, ?c)"
    by (simp add: user_cart_def with_cart_def)
  have wf: "\<forall>it\<in>set (Cart.items ?c). ObjectId_of demo (CartItem.product_id it) \<noteq> None"
    by (simp add: demo_defs)
  have r: "round_half_even2 (321 / 16) = 1003 / 50" by code_simp
  have v: "view_lines demo (product ?st) (Cart.items ?c) =
              [\<lparr>CartLine.product_id = lamp_id, CartLine.title = ''Lamp'', CartLine.price = 10,
                CartLine.quantity = 2, CartLine.image_url = None, CartLine.subtotal = 20\<rparr>,
               \<lparr>CartLine.product_id = sweet_id, CartLine.title = ''Sweet'',
                CartLine.price = 1 / 16, CartLine.quantity = 1, CartLine.image_url = None,
                CartLine.subtotal = 1 / 16\<rparr>]"
    by (simp add: demo_defs)
  have t: "round2 demo (fsum demo (map (line_amount demo) (view_lines demo (product ?st) (Cart.items ?c))))
             = 1003 / 50"
    unfolding v by (simp add: demo_def fsum_def line_amount_def r)
  note g = get_cart_lines [OF uc wf, THEN conjunct1, unfolded t, unfolded v]
  from uc g show ?thesis by (rule conjI)
qed

subsection \<open>Checkout\<close>

lemma order_items_Inr:
  "order_items X ps its ois amt = Inr (ois', amt') \<Longrightarrow>
     \<exists>new. ois' = ois @ new
        \<and> amt' = foldl (fadd X) amt (map OrderItem.subtotal new)
        \<and> map OrderItem.subtotal new = line_amounts X ps its
        \<and> (\<forall>oi\<in>set new. OrderItem.subtotal oi = fmul X (OrderItem.price oi) (OrderItem.quantity oi))
        \<and> (\<forall>it\<in>set its. resolve X ps (CartItem.product_id it) \<noteq> None)"
proof (induction its arbitrary: ois amt)
  case Nil
  then show ?case by simp
next
  case (Cons item rest)
  from Cons.prems obtain i prd where
    i: "ObjectId_of X (CartItem.product_id item) = Some i" and
    prd: "find_one_id i ps = Some prd"
    by (auto simp: oid_def split: option.splits sum.splits)
  let ?sub = "fmul X (Product.price prd) (CartItem.quantity item)"
  let ?oi = "\<lparr>OrderItem.product_id = str_of X i, OrderItem.title = Product.title prd,
              OrderItem.price = Product.price prd, OrderItem.quantity = CartItem.quantity item,
              OrderItem.subtotal = ?sub\<rparr>"
  from Cons.prems i prd have
    "order_items X ps rest (ois @ [?oi]) (fadd X amt ?sub) = Inr (ois', amt')"
    by (simp add: oid_def Let_def)
  from Cons.IH [OF this] obtain new where
    new: "ois' = (ois @ [?oi]) @ new"
      "amt' = foldl (fadd X) (fadd X amt ?sub) (map OrderItem.subtotal new)"
      "map OrderItem.subtotal new = line_amounts X ps rest"
      "\<forall>oi\<in>set new. OrderItem.subtotal oi = fmul X (OrderItem.price oi) (OrderItem.quantity oi)"
      "\<forall>it\<in>set rest. resolve X ps (CartItem.product_id it) \<noteq> None"
    by blast
  from new i prd show ?case
    by (intro exI [of _ "?oi # new"]) (simp add: resolve_def)
qed

lemma order_items_unresolved:
  "\<exists>it\<in>set its. resolve X ps (CartItem.product_id it) = None \<Longrightarrow>
     \<exists>d. order_items X ps its ois amt = Inl (HTTPException 400 d)"
proof (induction its arbitrary: ois amt)
  case Nil
  then show ?case by simp
next
  case (Cons item rest)
  show ?case
  proof (cases "resolve X ps (CartItem.product_id item)")
    case None
    then show ?thesis
      by (auto simp: resolve_def oid_def split: option.splits)
  next
    case (Some prd)
    with Cons.prems have "\<exists>it\<in>set rest. resolve X ps (CartItem.product_id it) = None"
      by auto
    from Cons.IH [OF this] Some show ?thesis
      by (auto simp: resolve_def oid_def Let_def split: option.splits)
  qed
qed

lemma order_items_unresolved_wf:
  "\<exists>it\<in>set its. resolve X ps (CartItem.product_id it) = None \<Longrightarrow>
   \<forall>it\<in>set its. ObjectId_of X (CartItem.product_id it) \<noteq> None \<Longrightarrow>
     order_items X ps its ois amt = Inl (HTTPException 400 ''Invalid product in cart'')"
proof (induction its arbitrary: ois amt)
  case Nil
  then show ?case by simp
next
  case (Cons item rest)
  show ?case
  proof (cases "resolve X ps (CartItem.product_id item)")
    case None
    with Cons.prems(2) show ?thesis
      by (auto simp: resolve_def oid_def split: option.splits)
  next
    case (Some prd)
    with Cons.prems have "\<exists>it\<in>set rest. resolve X ps (CartItem.product_id it) = None"
      by auto
    from Cons.IH [OF this] Cons.prems(2) Some show ?thesis
      by (auto simp: resolve_def oid_def Let_def split: option.splits)
  qed
qed

lemma checkout_Inr:
  assumes "fst (checkout X urandom st payload) = Inr resp"
  shows "\<exists>i c ois amt h.
      user_cart st (CheckoutRequest.user_id payload) = Some (i, c)
    \<and> Cart.items c \<noteq> []
    \<and> order_items X (product st) (Cart.items c) [] (fzero X) = Inr (ois, amt)
    \<and> length h = 8 \<and> list_all hex_char h
    \<and> snd (checkout X urandom st payload) =
        st\<lparr>order := order st @
               [\<lparr>Order.user_id = CheckoutRequest.user_id payload, Order.items = ois,
                 Order.amount = round2 X amt, Order.currency = ''usd'',
                 Order.status = ''paid'', Order.payment_ref = Some (''PAY-'' @ h)\<rparr>],
           cart := (cart st)[i := c\<lparr>Cart.items := []\<rparr>]\<rparr>
    \<and> resp = \<lparr>CheckoutResponse.order_id = str_of X (length (order st)),
               CheckoutResponse.amount = round2 X amt,
               CheckoutResponse.currency = ''usd'',
               CheckoutResponse.payment_ref = ''PAY-'' @ h\<rparr>"
proof -
  obtain b0 b1 b2 b3 where u: "urandom = (b0, b1, b2, b3)"
    by (cases urandom) auto
  let ?h = "upper (hex [b0, b1, b2, b3])"
  have h: "length ?h = 8" "list_all hex_char ?h"
    using length_upper_hex [of "[b0, b1, b2, b3]"] upper_hex_chars [of "[b0, b1, b2, b3]"]
    by simp_all
  from assms obtain i c where
    c: "find_one (\<lambda>c. Cart.user_id c = CheckoutRequest.user_id payload) (cart st) = Some (i, c)"
    by (auto simp: checkout_def split: option.splits)
  from assms c have ne: "Cart.items c \<noteq> []"
    by (auto simp: checkout_def split: if_splits)
  from assms c ne obtain ois amt where
    oi: "order_items X (product st) (Cart.items c) [] (fzero X) = Inr (ois, amt)"
    by (auto simp: checkout_def split: sum.splits)
  have upd: "update_one (\<lambda>d. Cart.user_id d = CheckoutRequest.user_id payload)
               (\<lambda>d. d\<lparr>Cart.items := []\<rparr>) (cart st) = (cart st)[i := c\<lparr>Cart.items := []\<rparr>]"
    using c by (rule update_one_found)
  from assms c ne oi u upd have
    "snd (checkout X urandom st payload) =
        st\<lparr>order := order st @
               [\<lparr>Order.user_id = CheckoutRequest.user_id payload, Order.items = ois,
                 Order.amount = round2 X amt, Order.currency = ''usd'',
                 Order.status = ''paid'', Order.payment_ref = Some (''PAY-'' @ ?h)\<rparr>],
           cart := (cart st)[i := c\<lparr>Cart.items := []\<rparr>]\<rparr>"
    "resp = \<lparr>CheckoutResponse.order_id = str_of X (length (order st)),
               CheckoutResponse.amount = round2 X amt,
               CheckoutResponse.currency = ''usd'',
               CheckoutResponse.payment_ref = ''PAY-'' @ ?h\<rparr>"
    by (simp_all add: checkout_def create_document_def Let_def)
  with c ne oi h show ?thesis
    unfolding user_cart_def by blast
qed

lemma checkout_no_cart:
  "user_cart st (CheckoutRequest.user_id payload) = None \<Longrightarrow>
     checkout X urandom st payload = (Inl (HTTPException 400 ''Cart is empty''), st)"
  by (simp add: checkout_def user_cart_def)

lemma checkout_empty_cart:
  "user_cart st (CheckoutRequest.user_id payload) = Some (i, c) \<Longrightarrow> Cart.items c = [] \<Longrightarrow>
     checkout X urandom st payload = (Inl (HTTPException 400 ''Cart is empty''), st)"
  by (simp add: checkout_def user_cart_def)

lemma user_cart_after_checkout:
  assumes "fst (checkout X urandom st payload) = Inr resp"
    and "user_cart st (CheckoutRequest.user_id payload) = Some (i, c)"
  shows "user_cart (snd (checkout X urandom st payload)) (CheckoutRequest.user_id payload)
           = Some (i, c\<lparr>Cart.items := []\<rparr>)"
proof -
  from checkout_Inr [OF assms(1)] assms(2) obtain ord where
    st': "snd (checkout X urandom st payload) =
            st\<lparr>order := order st @ [ord], cart := (cart st)[i := c\<lparr>Cart.items := []\<rparr>]\<rparr>"
    by auto
  from assms(2) have "Cart.user_id c = CheckoutRequest.user_id payload"
    unfolding user_cart_def by (auto dest: find_one_SomeD)
  then have "find_one (\<lambda>c. Cart.user_id c = CheckoutRequest.user_id payload)
               ((cart st)[i := c\<lparr>Cart.items := []\<rparr>]) = Some (i, c\<lparr>Cart.items := []\<rparr>)"
    using assms(2) unfolding user_cart_def
    by (intro find_one_after_update) simp_all
  with st' show ?thesis by (simp add: user_cart_def)
qed

text \<open>
  Claim C1. A successful checkout appends exactly one order. Its amount is the sum, over
  the cart items in order, of current product price times quantity, rounded to 2 decimal
  places (every item resolves); its status is \<^verbatim>\<open>paid\<close>; its payment reference is
  \<^verbatim>\<open>PAY-\<close> followed by 8 hexadecimal characters; and the cart of the user afterwards is
  the same document with no items.
\<close>

theorem checkout_success_order:
  "fst (checkout X urandom st payload) = Inr resp \<Longrightarrow>
   \<exists>i c ord h.
      user_cart st (CheckoutRequest.user_id payload) = Some (i, c)
    \<and> order (snd (checkout X urandom st payload)) = order st @ [ord]
    \<and> (\<forall>it\<in>set (Cart.items c). resolve X (product st) (CartItem.product_id it) \<noteq> None)
    \<and> Order.amount ord = round2 X (fsum X (line_amounts X (product st) (Cart.items c)))
    \<and> CheckoutResponse.amount resp = Order.amount ord
    \<and> Order.status ord = ''paid''
    \<and> Order.payment_ref ord = Some (''PAY-'' @ h) \<and> length h = 8 \<and> list_all hex_char h
    \<and> CheckoutResponse.payment_ref resp = ''PAY-'' @ h
    \<and> user_cart (snd (checkout X urandom st payload)) (CheckoutRequest.user_id payload)
         = Some (i, c\<lparr>Cart.items := []\<rparr>)
    \<and> Cart.items (c\<lparr>Cart.items := []\<rparr>) = []"
proof -
  assume ok: "fst (checkout X urandom st payload) = Inr resp"
  from checkout_Inr [OF ok] obtain i c ois amt h where
    c: "user_cart st (CheckoutRequest.user_id payload) = Some (i, c)" and
    oi: "order_items X (product st) (Cart.items c) [] (fzero X) = Inr (ois, amt)" and
    h: "length h = 8" "list_all hex_char h" and
    st': "snd (checkout X urandom st payload) =
        st\<lparr>order := order st @
               [\<lparr>Order.user_id = CheckoutRequest.user_id payload, Order.items = ois,
                 Order.amount = round2 X amt, Order.currency = ''usd'',
                 Order.status = ''paid'', Order.payment_ref = Some (''PAY-'' @ h)\<rparr>],
           cart := (cart st)[i := c\<lparr>Cart.items := []\<rparr>]\<rparr>" and
    resp: "resp = \<lparr>CheckoutResponse.order_id = str_of X (length (order st)),
               CheckoutResponse.amount = round2 X amt,
               CheckoutResponse.currency = ''usd'',
               CheckoutResponse.payment_ref = ''PAY-'' @ h\<rparr>"
    by blast
  from order_items_Inr [OF oi] have
    amt: "amt = fsum X (line_amounts X (product st) (Cart.items c))" and
    res: "\<forall>it\<in>set (Cart.items c). resolve X (product st) (CartItem.product_id it) \<noteq> None"
    by (auto simp: fsum_def)
  note after = user_cart_after_checkout [OF ok c]
  let ?ord = "\<lparr>Order.user_id = CheckoutRequest.user_id payload, Order.items = ois,
                 Order.amount = round2 X amt, Order.currency = ''usd'',
                 Order.status = ''paid'', Order.payment_ref = Some (''PAY-'' @ h)\<rparr>"
  have "order (snd (checkout X urandom st payload)) = order st @ [?ord]"
    by (simp add: st')
  with c res amt h resp after show ?thesis
    by (intro exI [of _ i] exI [of _ c] exI [of _ ?ord] exI [of _ h]) simp
qed

theorem checkout_success_order_witness:
  "fst (checkout demo (1, 2, 3, 255) (with_cart shop [(lamp_id, 5)]) \<lparr>CheckoutRequest.user_id = alice\<rparr>)
     = Inr \<lparr>CheckoutResponse.order_id = to_hex 24 0, CheckoutResponse.amount = 50,
            CheckoutResponse.currency = ''usd'', CheckoutResponse.payment_ref = ''PAY-010203FF''\<rparr>
   \<and> (\<exists>i c ord h.
      user_cart (with_cart shop [(lamp_id, 5)]) alice = Some (i, c)
    \<and> order (snd (checkout demo (1, 2, 3, 255) (with_cart shop [(lamp_id, 5)])
                 \<lparr>CheckoutRequest.user_id = alice\<rparr>)) = [ord]
    \<and> Order.amount ord = 50
    \<and> Order.status ord = ''paid''
    \<and> Order.payment_ref ord = Some (''PAY-'' @ h) \<and> length h = 8 \<and> list_all hex_char h
    \<and> user_cart (snd (checkout demo (1, 2, 3, 255) (with_cart shop [(lamp_id, 5)])
                      \<lparr>CheckoutRequest.user_id = alice\<rparr>)) alice
         = Some (i, c\<lparr>Cart.items := []\<rparr>))"
proof -
  let ?st = "with_cart shop [(lamp_id, 5)]"
  let ?p = "\<lparr>CheckoutRequest.user_id = alice\<rparr>"
  let ?resp = "\<lparr>CheckoutResponse.order_id = to_hex 24 0, CheckoutResponse.amount = 50,
            CheckoutResponse.currency = ''usd'', CheckoutResponse.payment_ref = ''PAY-010203FF''\<rparr>"
  have r: "round_half_even2 50 = 50" by code_simp
  have ok: "fst (checkout demo (1, 2, 3, 255) ?st ?p) = Inr ?resp"
    by (simp add: checkout_def demo_defs Let_def r)
  have amt: "round2 demo (fsum demo (line_amounts demo (product ?st) [\<lparr>CartItem.product_id = lamp_id, CartItem.quantity = 5\<rparr>])) = 50"
    by (simp add: demo_defs r)
  have uc: "user_cart ?st alice = Some (0, \<lparr>Cart.user_id = alice, Cart.items = [\<lparr>CartItem.product_id = lamp_id, CartItem.quantity = 5\<rparr>]\<rparr>)"
    by (simp add: user_cart_def with_cart_def)
  have o: "order ?st = []" by (simp add: with_cart_def shop_def)
  from checkout_success_order [OF ok] ok amt uc o show ?thesis
    by auto
qed

text \<open>
  Claim C3. When the cart of the user exists and is not empty but some item does not
  resolve to a product, checkout fails with status 400, the store is returned unchanged
  (no order is created, the cart keeps its items). When every product id in the cart is
  well formed, as it is for items stored by \<open>add_to_cart\<close>, the detail is
  \<^verbatim>\<open>Invalid product in cart\<close>.
\<close>

theorem checkout_unresolved_aborts:
  "user_cart st (CheckoutRequest.user_id payload) = Some (i, c) \<Longrightarrow>
   Cart.items c \<noteq> [] \<Longrightarrow>
   \<exists>it\<in>set (Cart.items c). resolve X (product st) (CartItem.product_id it) = None \<Longrightarrow>
     (\<exists>detail. fst (checkout X urandom st payload) = Inl (HTTPException 400 detail))
   \<and> snd (checkout X urandom st payload) = st
   \<and> order (snd (checkout X urandom st payload)) = order st
   \<and> user_cart (snd (checkout X urandom st payload)) (CheckoutRequest.user_id payload) = Some (i, c)
   \<and> ((\<forall>it\<in>set (Cart.items c). ObjectId_of X (CartItem.product_id it) \<noteq> None) \<longrightarrow>
        fst (checkout X urandom st payload) = Inl (HTTPException 400 ''Invalid product in cart''))"
proof -
  assume c: "user_cart st (CheckoutRequest.user_id payload) = Some (i, c)"
    and ne: "Cart.items c \<noteq> []"
    and un: "\<exists>it\<in>set (Cart.items c). resolve X (product st) (CartItem.product_id it) = None"
  from order_items_unresolved [OF un] obtain detail where
    d: "order_items X (product st) (Cart.items c) [] (fzero X) = Inl (HTTPException 400 detail)"
    by blast
  from c ne d have res: "checkout X urandom st payload = (Inl (HTTPException 400 detail), st)"
    by (simp add: checkout_def user_cart_def)
  have "detail = ''Invalid product in cart''"
    if "\<forall>it\<in>set (Cart.items c). ObjectId_of X (CartItem.product_id it) \<noteq> None"
    using order_items_unresolved_wf [OF un that, of "[]" "fzero X"] d by simp
  with res c show ?thesis by simp
qed

theorem checkout_unresolved_aborts_witness:
  "user_cart (with_cart shop [(lamp_id, 1), (gone_id, 2)]) alice
     = Some (0, \<lparr>Cart.user_id = alice,
                 Cart.items = [\<lparr>CartItem.product_id = lamp_id, CartItem.quantity = 1\<rparr>,
                               \<lparr>CartItem.product_id = gone_id, CartItem.quantity = 2\<rparr>]\<rparr>)
   \<and> resolve demo (product (with_cart shop [(lamp_id, 1), (gone_id, 2)])) gone_id = None
   \<and> checkout demo (1, 2, 3, 255) (with_cart shop [(lamp_id, 1), (gone_id, 2)])
        \<lparr>CheckoutRequest.user_id = alice\<rparr>
      = (Inl (HTTPException 400 ''Invalid product in cart''),
         with_cart shop [(lamp_id, 1), (gone_id, 2)])"
proof -
  let ?st = "with_cart shop [(lamp_id, 1), (gone_id, 2)]"
  let ?c = "\<lparr>Cart.user_id = alice,
             Cart.items = [\<lparr>CartItem.product_id = lamp_id, CartItem.quantity = 1\<rparr>,
                           \<lparr>CartItem.product_id = gone_id, CartItem.quantity = 2\<rparr>]\<rparr>"
  let ?p = "\<lparr>CheckoutRequest.user_id = alice\<rparr>"
  have uc: "user_cart ?st (CheckoutRequest.user_id ?p) = Some (0, ?c)"
    by (simp add: user_cart_def with_cart_def)
  have ne: "Cart.items ?c \<noteq> []" by simp
  have gone: "resolve demo (product ?st) gone_id = None"
    by (simp add: demo_defs)
  then have un: "\<exists>it\<in>set (Cart.items ?c). resolve demo (product ?st) (CartItem.product_id it) = None"
    by simp
  have wf: "\<forall>it\<in>set (Cart.items ?c). ObjectId_of demo (CartItem.product_id it) \<noteq> None"
    by (simp add: demo_defs)
  from checkout_unresolved_aborts [OF uc ne un, of "(1, 2, 3, 255)"] wf
  have "checkout demo (1, 2, 3, 255) ?st ?p = (Inl (HTTPException 400 ''Invalid product in cart''), ?st)"
    by (simp add: prod_eq_iff)
  with uc gone show ?thesis by simp
qed

text \<open>
  Claim C4. When the user has no cart, or a cart without items, checkout fails with
  400 \<^verbatim>\<open>Cart is empty\<close> and returns the store unchanged. A checkout that follows a
  successful one for the same user fails in this way.
\<close>

theorem checkout_empty_cart_fails:
  "((user_cart st1 (CheckoutRequest.user_id p1) = None
      \<or> (\<exists>i c. user_cart st1 (CheckoutRequest.user_id p1) = Some (i, c) \<and> Cart.items c = []))
     \<longrightarrow> checkout X r1 st1 p1 = (Inl (HTTPException 400 ''Cart is empty''), st1))
   \<and> (fst (checkout X r st p) = Inr resp
     \<longrightarrow> checkout X r' (snd (checkout X r st p)) p
           = (Inl (HTTPException 400 ''Cart is empty''), snd (checkout X r st p)))"
proof (intro conjI impI)
  assume "user_cart st1 (CheckoutRequest.user_id p1) = None
      \<or> (\<exists>i c. user_cart st1 (CheckoutRequest.user_id p1) = Some (i, c) \<and> Cart.items c = [])"
  then show "checkout X r1 st1 p1 = (Inl (HTTPException 400 ''Cart is empty''), st1)"
    using checkout_no_cart checkout_empty_cart by blast
next
  assume ok: "fst (checkout X r st p) = Inr resp"
  from checkout_Inr [OF ok] obtain i c where
    c: "user_cart st (CheckoutRequest.user_id p) = Some (i, c)"
    by blast
  from user_cart_after_checkout [OF ok c]
  show "checkout X r' (snd (checkout X r st p)) p
           = (Inl (HTTPException 400 ''Cart is empty''), snd (checkout X r st p))"
    by (intro checkout_empty_cart [where i = i and c = "c\<lparr>Cart.items := []\<rparr>"]) simp_all
qed

theorem checkout_empty_cart_fails_witness:
  "user_cart shop alice = None
   \<and> checkout demo (0, 0, 0, 0) shop \<lparr>CheckoutRequest.user_id = alice\<rparr>
       = (Inl (HTTPException 400 ''Cart is empty''), shop)
   \<and> (\<exists>resp. fst (checkout demo (1, 2, 3, 255) (with_cart shop [(lamp_id, 5)])
                 \<lparr>CheckoutRequest.user_id = alice\<rparr>) = Inr resp)
   \<and> fst (checkout demo (4, 5, 6, 7)
            (snd (checkout demo (1, 2, 3, 255) (with_cart shop [(lamp_id, 5)])
                    \<lparr>CheckoutRequest.user_id = alice\<rparr>))
            \<lparr>CheckoutRequest.user_id = alice\<rparr>)
       = Inl (HTTPException 400 ''Cart is empty'')"
proof -
  let ?st = "with_cart shop [(lamp_id, 5)]"
  let ?p = "\<lparr>CheckoutRequest.user_id = alice\<rparr>"
  let ?resp = "\<lparr>CheckoutResponse.order_id = to_hex 24 0, CheckoutResponse.amount = 50,
            CheckoutResponse.currency = ''usd'', CheckoutResponse.payment_ref = ''PAY-010203FF''\<rparr>"
  have r: "round_half_even2 50 = 50" by code_simp
  have ok: "fst (checkout demo (1, 2, 3, 255) ?st ?p) = Inr ?resp"
    by (simp add: checkout_def demo_defs Let_def r)
  have none: "user_cart shop (CheckoutRequest.user_id ?p) = None"
    by (simp add: user_cart_def shop_def)
  from checkout_empty_cart_fails [of shop ?p demo "(0, 0, 0, 0)" "(1, 2, 3, 255)" ?st ?p ?resp "(4, 5, 6, 7)"]
    none ok
  show ?thesis by simp
qed

text \<open>
  Claim C5 (as amended). For the order a successful checkout creates, the amount is the
  sum of the subtotals of its items rounded to 2 decimal places, and the subtotal of
  each item is its price times its quantity, not rounded.
\<close>

theorem order_amount_rounded_sum:
  "fst (checkout X urandom st payload) = Inr resp \<Longrightarrow>
   \<exists>ord. order (snd (checkout X urandom st payload)) = order st @ [ord]
     \<and> Order.amount ord = round2 X (fsum X (map OrderItem.subtotal (Order.items ord)))
     \<and> (\<forall>oi\<in>set (Order.items ord).
           OrderItem.subtotal oi = fmul X (OrderItem.price oi) (OrderItem.quantity oi))"
proof -
  assume ok: "fst (checkout X urandom st payload) = Inr resp"
  from checkout_Inr [OF ok] obtain i c ois amt h where
    oi: "order_items X (product st) (Cart.items c) [] (fzero X) = Inr (ois, amt)" and
    st': "snd (checkout X urandom st payload) =
        st\<lparr>order := order st @
               [\<lparr>Order.user_id = CheckoutRequest.user_id payload, Order.items = ois,
                 Order.amount = round2 X amt, Order.currency = ''usd'',
                 Order.status = ''paid'', Order.payment_ref = Some (''PAY-'' @ h)\<rparr>],
           cart := (cart st)[i := c\<lparr>Cart.items := []\<rparr>]\<rparr>"
    by blast
  from order_items_Inr [OF oi] have
    "amt = fsum X (map OrderItem.subtotal ois)"
    "\<forall>oi\<in>set ois. OrderItem.subtotal oi = fmul X (OrderItem.price oi) (OrderItem.quantity oi)"
    by (auto simp: fsum_def)
  with st' show ?thesis by simp
qed

theorem order_amount_rounded_sum_witness:
  "fst (checkout demo (1, 2, 3, 255) (with_cart shop [(sweet_id, 1)])
          \<lparr>CheckoutRequest.user_id = alice\<rparr>)
     = Inr \<lparr>CheckoutResponse.order_id = to_hex 24 0, CheckoutResponse.amount = 3 / 50,
            CheckoutResponse.currency = ''usd'', CheckoutResponse.payment_ref = ''PAY-010203FF''\<rparr>
   \<and> (\<exists>ord. order (snd (checkout demo (1, 2, 3, 255) (with_cart shop [(sweet_id, 1)])
                         \<lparr>CheckoutRequest.user_id = alice\<rparr>)) = [ord]
     \<and> Order.amount ord = round2 demo (fsum demo (map OrderItem.subtotal (Order.items ord))))"
proof -
  let ?st = "with_cart shop [(sweet_id, 1)]"
  let ?p = "\<lparr>CheckoutRequest.user_id = alice\<rparr>"
  let ?resp = "\<lparr>CheckoutResponse.order_id = to_hex 24 0, CheckoutResponse.amount = 3 / 50,
            CheckoutResponse.currency = ''usd'', CheckoutResponse.payment_ref = ''PAY-010203FF''\<rparr>"
  have ok: "fst (checkout demo (1, 2, 3, 255) ?st ?p) = Inr ?resp"
    by (simp add: checkout_def demo_defs Let_def round_sweet)
  have o: "order ?st = []" by (simp add: with_cart_def shop_def)
  from order_amount_rounded_sum [OF ok] obtain ord where
    "order (snd (checkout demo (1, 2, 3, 255) ?st ?p)) = order ?st @ [ord]"
    "Order.amount ord = round2 demo (fsum demo (map OrderItem.subtotal (Order.items ord)))"
    by blast
  with o have
    "\<exists>ord. order (snd (checkout demo (1, 2, 3, 255) ?st ?p)) = [ord]
       \<and> Order.amount ord = round2 demo (fsum demo (map OrderItem.subtotal (Order.items ord)))"
    by (intro exI [of _ ord]) simp
  with ok show ?thesis by (rule conjI)
qed

text \<open>
  Claim C5 as stated fails: for one item of price 0.0625 and quantity 1 the order has
  subtotal 0.0625 and amount 0.06, so the amount is not the sum of the subtotals and the
  subtotal is not the rounded product.
\<close>

theorem order_amount_counterexample:
  "order (snd (checkout demo (1, 2, 3, 255) (with_cart shop [(sweet_id, 1)])
                 \<lparr>CheckoutRequest.user_id = alice\<rparr>))
     = [\<lparr>Order.user_id = alice,
          Order.items = [\<lparr>OrderItem.product_id = ''000000000000000000000001'',
                           OrderItem.title = ''Sweet'', OrderItem.price = 1 / 16,
                           OrderItem.quantity = 1, OrderItem.subtotal = 1 / 16\<rparr>],
          Order.amount = 3 / 50, Order.currency = ''usd'', Order.status = ''paid'',
          Order.payment_ref = Some ''PAY-010203FF''\<rparr>]
   \<and> Order.amount (last (order (snd (checkout demo (1, 2, 3, 255) (with_cart shop [(sweet_id, 1)])
                                     \<lparr>CheckoutRequest.user_id = alice\<rparr>))))
       \<noteq> fsum demo (map OrderItem.subtotal
            (Order.items (last (order (snd (checkout demo (1, 2, 3, 255)
               (with_cart shop [(sweet_id, 1)]) \<lparr>CheckoutRequest.user_id = alice\<rparr>))))))
   \<and> OrderItem.subtotal (hd (Order.items (last (order (snd (checkout demo (1, 2, 3, 255)
               (with_cart shop [(sweet_id, 1)]) \<lparr>CheckoutRequest.user_id = alice\<rparr>))))))
       \<noteq> round2 demo (fmul demo (1 / 16) 1)"
proof -
  have o: "order (snd (checkout demo (1, 2, 3, 255) (with_cart shop [(sweet_id, 1)])
                 \<lparr>CheckoutRequest.user_id = alice\<rparr>))
     = [\<lparr>Order.user_id = alice,
          Order.items = [\<lparr>OrderItem.product_id = ''000000000000000000000001'',
                           OrderItem.title = ''Sweet'', OrderItem.price = 1 / 16,
                           OrderItem.quantity = 1, OrderItem.subtotal = 1 / 16\<rparr>],
          Order.amount = 3 / 50, Order.currency = ''usd'', Order.status = ''paid'',
          Order.payment_ref = Some ''PAY-010203FF''\<rparr>]"
    by (simp add: checkout_def demo_defs Let_def round_sweet to_hex_1)
  have r: "round2 demo (fmul demo (1 / 16) 1) = 3 / 50"
    by (simp add: demo_def round_sweet)
  show ?thesis
    unfolding o r by (simp add: fsum_def demo_def)
qed

subsection \<open>Well-formed product ids in carts\<close>

lemma add_to_cart_ids_wf:
  assumes "cart_ids_wf X st"
  shows "cart_ids_wf X (snd (add_to_cart X st payload))"
proof (cases "fst (add_to_cart X st payload)")
  case (Inl e)
  then have "snd (add_to_cart X st payload) = st"
    by (auto simp: add_to_cart_def CartSchema_def CartItemSchema_def Let_def
        split: sum.splits option.splits prod.splits if_splits)
  with assms show ?thesis by simp
next
  case (Inr ok)
  then obtain j where j: "ObjectId_of X (AddToCartRequest.product_id payload) = Some j"
    by (auto simp: add_to_cart_def oid_def split: sum.splits option.splits)
  show ?thesis
  proof (cases "find_one (\<lambda>c. Cart.user_id c = AddToCartRequest.user_id payload) (cart st)")
    case None
    with Inr assms j show ?thesis
      by (auto simp: add_to_cart_def cart_ids_wf_def create_document_def CartSchema_def
          CartItemSchema_def split: sum.splits option.splits if_splits)
  next
    case (Some ic)
    obtain i c where ic: "ic = (i, c)" by (cases ic)
    from Some ic have i: "i < length (cart st)" "cart st ! i = c"
      by (auto dest: find_one_SomeD)
    let ?its = "fst (bump_items (AddToCartRequest.product_id payload)
                  (AddToCartRequest.quantity payload) (Cart.items c) False)"
    let ?new = "\<lparr>CartItem.product_id = AddToCartRequest.product_id payload,
                 CartItem.quantity = AddToCartRequest.quantity payload\<rparr>"
    from assms i have c: "list_all (\<lambda>it. ObjectId_of X (CartItem.product_id it) \<noteq> None) (Cart.items c)"
      by (auto simp: cart_ids_wf_def list_all_iff)
    then have its: "list_all (\<lambda>it. ObjectId_of X (CartItem.product_id it) \<noteq> None) ?its"
      by (auto simp: bump_items_fst list_all_iff)
    from Inr Some ic obtain its' where
      st': "snd (add_to_cart X st payload) = st\<lparr>cart := (cart st)[i := c\<lparr>Cart.items := its'\<rparr>]\<rparr>"
      and its': "its' = ?its \<or> its' = ?its @ [?new]"
      using i
      by (auto simp: add_to_cart_def update_one_id_def Let_def
          split: sum.splits option.splits prod.splits if_splits)
    from its its' j have "list_all (\<lambda>it. ObjectId_of X (CartItem.product_id it) \<noteq> None) its'"
      by auto
    with assms st' show ?thesis
      by (auto simp: cart_ids_wf_def list_all_iff dest!: set_update_subset_insert [THEN subsetD])
  qed
qed

lemma checkout_ids_wf:
  assumes "cart_ids_wf X st"
  shows "cart_ids_wf X (snd (checkout X urandom st payload))"
proof (cases "fst (checkout X urandom st payload)")
  case (Inl e)
  then have "snd (checkout X urandom st payload) = st"
    by (auto simp: checkout_def Let_def split: sum.splits option.splits prod.splits if_splits)
  with assms show ?thesis by simp
next
  case (Inr resp)
  from checkout_Inr [OF Inr] obtain i c ord where
    "snd (checkout X urandom st payload) =
       st\<lparr>order := order st @ [ord], cart := (cart st)[i := c\<lparr>Cart.items := []\<rparr>]\<rparr>"
    by blast
  with assms show ?thesis
    by (auto simp: cart_ids_wf_def list_all_iff dest!: set_update_subset_insert [THEN subsetD])
qed

subsection \<open>Auth\<close>

text \<open>
  Claim C10. Any two successful calls of \<open>signup\<close> or \<open>signin\<close> with the same email and
  password return the same token, whatever the stores: the token is the digest of
  email, colon, password and the salt.
\<close>

theorem token_deterministic:
  "fst (auth X st1 call1) = Inr r1 \<Longrightarrow>
   fst (auth X st2 call2) = Inr r2 \<Longrightarrow>
   credentials call1 = credentials call2 \<Longrightarrow>
     AuthResponse.token r1 = AuthResponse.token r2
   \<and> AuthResponse.token r1 = hash_password X (fst (credentials call1) @ '':'' @ snd (credentials call1))"
proof -
  have tok: "AuthResponse.token r = hash_password X (fst (credentials call) @ '':'' @ snd (credentials call))"
    if "fst (auth X st call) = Inr r" for st call r
  proof (cases call)
    case (SignUp p)
    with that show ?thesis
      by (auto simp: signup_def create_document_def Let_def split: option.splits)
  next
    case (SignIn p)
    with that show ?thesis
      by (auto simp: signin_def Let_def split: option.splits if_splits)
  qed
  assume "fst (auth X st1 call1) = Inr r1" "fst (auth X st2 call2) = Inr r2"
    "credentials call1 = credentials call2"
  then show ?thesis
    using tok [of st1 call1 r1] tok [of st2 call2 r2] by simp
qed

theorem token_deterministic_witness:
  "fst (auth demo shop (SignUp bob_signup))
     = Inr \<lparr>AuthResponse.user_id = to_hex 24 0, AuthResponse.name = ''Bob'',
            AuthResponse.email = ''bob@example.com'',
            AuthResponse.token = ''bob@example.com:pwflames_saas''\<rparr>
   \<and> fst (auth demo (snd (auth demo shop (SignUp bob_signup))) (SignIn bob_signin))
     = Inr \<lparr>AuthResponse.user_id = to_hex 24 0, AuthResponse.name = ''Bob'',
            AuthResponse.email = ''bob@example.com'',
            AuthResponse.token = ''bob@example.com:pwflames_saas''\<rparr>
   \<and> credentials (SignUp bob_signup) = credentials (SignIn bob_signin)"
proof -
  let ?r = "\<lparr>AuthResponse.user_id = to_hex 24 0, AuthResponse.name = ''Bob'',
            AuthResponse.email = ''bob@example.com'',
            AuthResponse.token = ''bob@example.com:pwflames_saas''\<rparr>"
  have up: "fst (auth demo shop (SignUp bob_signup)) = Inr ?r"
    by (simp add: signup_def hash_password_def bob_signup_def demo_defs Let_def)
  have "\<exists>r. fst (auth demo (snd (auth demo shop (SignUp bob_signup))) (SignIn bob_signin)) = Inr r
          \<and> AuthResponse.user_id r = to_hex 24 0 \<and> AuthResponse.name r = ''Bob''
          \<and> AuthResponse.email r = ''bob@example.com''"
    by (simp add: signup_def signin_def hash_password_def bob_signup_def bob_signin_def
          demo_defs Let_def)
  then obtain r where
    inn: "fst (auth demo (snd (auth demo shop (SignUp bob_signup))) (SignIn bob_signin)) = Inr r"
    and r: "AuthResponse.user_id r = to_hex 24 0" "AuthResponse.name r = ''Bob''"
      "AuthResponse.email r = ''bob@example.com''"
    by blast
  have cr: "credentials (SignUp bob_signup) = credentials (SignIn bob_signin)"
    by (simp add: bob_signup_def bob_signin_def)
  from token_deterministic [OF up inn cr] have "AuthResponse.token r = AuthResponse.token ?r"
    by simp
  with r have "r = ?r" by simp
  with up inn cr show ?thesis by simp
qed

end
